theory Spec2Isabelle
  imports Complex_Main
begin

section \<open>The runtime the components touch\<close>

text \<open>
  \<^verbatim>\<open>App.tsx\<close> reads three things of its host: the module constant
  \<^verbatim>\<open>isBrowser\<close> (line 20: a window and a document exist), the Web Storage object
  \<^verbatim>\<open>localStorage\<close>, and the window with its vertical scroll offset and its list of
  scroll listeners. They are the fields of one record, passed to every handler and
  returned updated.

  The Storage interface raises a DOMException where the platform refuses the access
  (storage denied by policy) or the write (quota exhausted). The two fault fields say
  whether a read or a write raises, and what.
\<close>

datatype dom_exception = SecurityError | QuotaExceededError

type_synonym listener = nat

record runtime =
  isBrowser :: bool
  read_fault :: "dom_exception option"
  write_fault :: "dom_exception option"
  localStorage :: "string \<rightharpoonup> string"
  scrollY :: real
  scroll_listeners :: "listener list"

text \<open>\<^verbatim>\<open>localStorage.getItem(k)\<close>: the stored string, or null (here \<open>None\<close>).\<close>

definition getItem :: "runtime \<Rightarrow> string \<Rightarrow> dom_exception + string option" where
  "getItem r k = (case read_fault r of Some e \<Rightarrow> Inl e | None \<Rightarrow> Inr (localStorage r k))"

text \<open>\<^verbatim>\<open>localStorage.setItem(k, v)\<close>: the entry is written, or nothing is and it raises.\<close>

definition setItem :: "runtime \<Rightarrow> string \<Rightarrow> string \<Rightarrow> dom_exception + runtime" where
  "setItem r k v =
     (case write_fault r of
        Some e \<Rightarrow> Inl e
      | None \<Rightarrow> Inr (r\<lparr>localStorage := (localStorage r)(k \<mapsto> v)\<rparr>))"

text \<open>
  JavaScript's \<^verbatim>\<open>!x\<close> on a value of type \<^verbatim>\<open>string | null\<close>: null and the empty
  string are falsy, every other string is truthy.
\<close>

definition js_not :: "string option \<Rightarrow> bool" where
  "js_not x = (case x of None \<Rightarrow> True | Some s \<Rightarrow> s = [])"

text \<open>
  A handler is a function from the state it may change to an exception or the new
  state. An exception that leaves a handler is not caught anywhere in the file; in
  both handlers that can raise (lines 52 and 72) the state setter is the last statement
  and follows the storage call, so a raised exception leaves the state as it was.
  (An exception that escapes an effect makes React drop the component tree, so nothing
  of the component is on the page then; the state variable itself is never set.)
\<close>

definition settle :: "'s \<Rightarrow> dom_exception + 's \<Rightarrow> 's" where
  "settle s res = (case res of Inl e \<Rightarrow> s | Inr s' \<Rightarrow> s')"

section \<open>Cookie consent (lines 48 to 84)\<close>

definition ft_cookie_ok :: string where
  "ft_cookie_ok = ''ft_cookie_ok''"

datatype banner_state = Hidden | Visible

text \<open>\<^verbatim>\<open>useState<boolean>(false)\<close>, line 49.\<close>

definition CookieBanner_initial :: bool where
  "CookieBanner_initial = False"

text \<open>
  The mount effect, lines 50 to 53:
  \<^verbatim>\<open>if (!isBrowser) return; setVisible(!localStorage.getItem("ft_cookie_ok"));\<close>
\<close>

definition CookieBanner_effect :: "runtime \<Rightarrow> bool \<Rightarrow> dom_exception + bool" where
  "CookieBanner_effect r visible =
     (if \<not> isBrowser r then Inr visible
      else case getItem r ft_cookie_ok of
             Inl e \<Rightarrow> Inl e
           | Inr item \<Rightarrow> Inr (js_not item))"

text \<open>Mounting: the initial state, then the effect once (its dependency list is empty).\<close>

definition CookieBanner_mount :: "runtime \<Rightarrow> bool" where
  "CookieBanner_mount r =
     settle CookieBanner_initial (CookieBanner_effect r CookieBanner_initial)"

text \<open>Line 54: \<^verbatim>\<open>if (!visible) return null;\<close> and the banner otherwise.\<close>

definition CookieBanner_render :: "bool \<Rightarrow> banner_state" where
  "CookieBanner_render visible = (if \<not> visible then Hidden else Visible)"

text \<open>
  The Accept button's handler, line 72:
  \<^verbatim>\<open>if (isBrowser) localStorage.setItem("ft_cookie_ok", "1"); setVisible(false);\<close>
\<close>

definition CookieBanner_onAccept :: "runtime \<Rightarrow> bool \<Rightarrow> dom_exception + runtime \<times> bool" where
  "CookieBanner_onAccept r visible =
     (case (if isBrowser r then setItem r ft_cookie_ok ''1'' else Inr r) of
        Inl e \<Rightarrow> Inl e
      | Inr r' \<Rightarrow> Inr (r', False))"

text \<open>
  A click on Accept. The button is part of the banner, so there is nothing to click
  while the banner is not rendered.
\<close>

definition click_Accept :: "runtime \<times> bool \<Rightarrow> runtime \<times> bool" where
  "click_Accept s =
     (case s of (r, visible) \<Rightarrow>
        (case CookieBanner_render visible of
           Hidden \<Rightarrow> s
         | Visible \<Rightarrow> settle s (CookieBanner_onAccept r visible)))"

text \<open>
  The end-to-end session: mount, click Accept, reload. A reload keeps the storage and
  starts the component again from its initial state. The result is the banner after
  each of the three steps and the stored entry after the click.
\<close>

definition mount_accept_reload ::
  "runtime \<Rightarrow> banner_state \<times> banner_state \<times> string option \<times> banner_state" where
  "mount_accept_reload r =
     (let v1 = CookieBanner_mount r;
          (r2, v2) = click_Accept (r, v1);
          v3 = CookieBanner_mount r2
      in (CookieBanner_render v1, CookieBanner_render v2,
          localStorage r2 ft_cookie_ok, CookieBanner_render v3))"

section \<open>Navigation bar (lines 113 to 121)\<close>

text \<open>
  The window keeps the listeners of its scroll event in a list. A listener is a
  function object, known by its identity. \<^verbatim>\<open>addEventListener\<close> appends a listener
  that is not in the list yet; \<^verbatim>\<open>removeEventListener\<close> takes it out.
\<close>

definition addEventListener :: "listener \<Rightarrow> runtime \<Rightarrow> runtime" where
  "addEventListener h r =
     (if h \<in> set (scroll_listeners r) then r
      else r\<lparr>scroll_listeners := scroll_listeners r @ [h]\<rparr>)"

definition removeEventListener :: "listener \<Rightarrow> runtime \<Rightarrow> runtime" where
  "removeEventListener h r = r\<lparr>scroll_listeners := remove1 h (scroll_listeners r)\<rparr>"

text \<open>
  The component's state: \<^verbatim>\<open>scrolled\<close> (line 114, \<^verbatim>\<open>useState(false)\<close>), and the
  listener its effect registered, which the cleanup closure of line 120 holds on to.
\<close>

record nav =
  scrolled :: bool
  subscription :: "listener option"

definition Nav_initial :: bool where
  "Nav_initial = False"

text \<open>Line 118: \<^verbatim>\<open>const handleScroll = () => setScrolled(window.scrollY > 20);\<close>\<close>

definition handleScroll :: "runtime \<Rightarrow> bool \<Rightarrow> bool" where
  "handleScroll r scrolled_before = (scrollY r > 20)"

text \<open>
  The effect, lines 116 to 121. \<open>h\<close> is the identity of the closure
  \<^verbatim>\<open>handleScroll\<close> that this run of the effect creates. The result is the runtime
  and the cleanup: none where the effect returned at line 117.
\<close>

definition Nav_effect :: "listener \<Rightarrow> runtime \<Rightarrow> runtime \<times> listener option" where
  "Nav_effect h r =
     (if \<not> isBrowser r then (r, None)
      else (addEventListener h r, Some h))"

definition Nav_mount :: "listener \<Rightarrow> runtime \<Rightarrow> nav \<times> runtime" where
  "Nav_mount h r =
     (case Nav_effect h r of
        (r', c) \<Rightarrow> (\<lparr>scrolled = Nav_initial, subscription = c\<rparr>, r'))"

text \<open>Unmounting runs the cleanup the effect returned, if it returned one.\<close>

definition Nav_unmount :: "nav \<times> runtime \<Rightarrow> runtime" where
  "Nav_unmount s =
     (case s of (n, r) \<Rightarrow>
        (case subscription n of
           None \<Rightarrow> r
         | Some h \<Rightarrow> removeEventListener h r))"

text \<open>
  A scroll event: the window is at offset \<open>y\<close> and calls the listeners of its list,
  so the component's handler runs when its listener is registered.
\<close>

definition scroll_to :: "real \<Rightarrow> nav \<times> runtime \<Rightarrow> nav \<times> runtime" where
  "scroll_to y s =
     (case s of (n, r) \<Rightarrow>
        (let r' = r\<lparr>scrollY := y\<rparr> in
         case subscription n of
           None \<Rightarrow> (n, r')
         | Some h \<Rightarrow>
             if h \<in> set (scroll_listeners r')
             then (n\<lparr>scrolled := handleScroll r' (scrolled n)\<rparr>, r')
             else (n, r')))"

text \<open>The header's conditional classes, lines 124 to 126.\<close>

definition Nav_header_class :: "bool \<Rightarrow> string" where
  "Nav_header_class is_scrolled =
     (if is_scrolled then ''bg-gray-900/95 backdrop-blur-md shadow-lg'' else ''bg-transparent'')"

section \<open>Pricing (lines 360 to 479)\<close>

datatype billing = Monthly | Annual

record plan =
  name :: string
  description :: string
  monthlyPrice :: int
  annualPrice :: int
  featured :: "bool option"
  features :: "string list"

definition plans :: "plan list" where
  "plans =
     [\<lparr>name = ''Essential'', description = ''Perfect for small fleets'',
       monthlyPrice = 12, annualPrice = 10, featured = None,
       features = [''Live GPS Tracking'', ''Basic Reports'', ''Email Support'',
                   ''30-day History'', ''Mobile App Access'']\<rparr>,
      \<lparr>name = ''Professional'', description = ''For growing businesses'',
       monthlyPrice = 18, annualPrice = 15, featured = Some True,
       features = [''All Essential features'', ''Advanced Analytics'', ''Priority Support'',
                   ''90-day History'', ''API Access'', ''Custom Reports'', ''SMS Alerts'']\<rparr>,
      \<lparr>name = ''Enterprise'', description = ''For large operations'',
       monthlyPrice = 25, annualPrice = 20, featured = None,
       features = [''All Professional features'', ''Unlimited History'', ''24/7 Phone Support'',
                   ''Dedicated Account Manager'', ''Custom Integrations'', ''SLA Guarantee'',
                   ''White-label Options'']\<rparr>]"

text \<open>Line 361: \<^verbatim>\<open>useState<'monthly' | 'annual'>('monthly')\<close>.\<close>

definition Pricing_initial :: billing where
  "Pricing_initial = Monthly"

text \<open>The state setter replaces the state; the two buttons call it (lines 430 and 440).\<close>

definition setBillingCycle :: "billing \<Rightarrow> billing \<Rightarrow> billing" where
  "setBillingCycle selected billingCycle = selected"

definition selectMonthly :: "billing \<Rightarrow> billing" where
  "selectMonthly = setBillingCycle Monthly"

definition selectAnnual :: "billing \<Rightarrow> billing" where
  "selectAnnual = setBillingCycle Annual"

text \<open>Line 476: \<^verbatim>\<open>billingCycle === 'monthly' ? plan.monthlyPrice : plan.annualPrice\<close>.\<close>

definition displayed_price :: "billing \<Rightarrow> plan \<Rightarrow> int" where
  "displayed_price billingCycle p =
     (if billingCycle = Monthly then monthlyPrice p else annualPrice p)"

text \<open>Line 453: one card per plan, in the order of the array.\<close>

definition Pricing_prices :: "billing \<Rightarrow> int list" where
  "Pricing_prices billingCycle = map (displayed_price billingCycle) plans"

section \<open>Structured metadata (lines 87 to 110)\<close>

text \<open>
  The document is an object of strings and objects. \<^verbatim>\<open>JSON.stringify\<close> writes an
  object's members in insertion order with no white space, and a string between double
  quotes with the quote, the backslash and the control characters escaped.
\<close>

datatype json = JString string | JObject "(string \<times> json) list"

definition hex_digit :: "nat \<Rightarrow> char" where
  "hex_digit n = ''0123456789abcdef'' ! n"

definition quote_char :: "char \<Rightarrow> string" where
  "quote_char c =
     (if c = CHR 0x22 then [CHR 0x5C, CHR 0x22]
      else if c = CHR 0x5C then [CHR 0x5C, CHR 0x5C]
      else if c = CHR 0x08 then [CHR 0x5C, CHR ''b'']
      else if c = CHR 0x0C then [CHR 0x5C, CHR ''f'']
      else if c = CHR 0x0A then [CHR 0x5C, CHR ''n'']
      else if c = CHR 0x0D then [CHR 0x5C, CHR ''r'']
      else if c = CHR 0x09 then [CHR 0x5C, CHR ''t'']
      else if of_char c < (32::nat) then
        [CHR 0x5C, CHR ''u'', CHR ''0'', CHR ''0'',
         hex_digit (of_char c div 16), hex_digit (of_char c mod 16)]
      else [c])"

definition quote :: "string \<Rightarrow> string" where
  "quote s = [CHR 0x22] @ concat (map quote_char s) @ [CHR 0x22]"

fun join :: "string \<Rightarrow> string list \<Rightarrow> string" where
  "join sep [] = []"
| "join sep [x] = x"
| "join sep (x # y # ys) = x @ sep @ join sep (y # ys)"

fun stringify :: "json \<Rightarrow> string" where
  "stringify (JString s) = quote s"
| "stringify (JObject members) =
     ''{'' @ join '','' (map (\<lambda>(k, v). quote k @ '':'' @ stringify v) members) @ ''}''"

text \<open>The object of lines 88 to 105.\<close>

definition json :: json where
  "json =
     JObject
       [(''@context'', JString ''https://schema.org''),
        (''@type'', JString ''Organization''),
        (''name'', JString ''Franstrack''),
        (''description'', JString ''Professional GPS tracking and fleet management solutions with real-time vehicle monitoring and analytics.''),
        (''url'', JString ''https://franstrack.com''),
        (''logo'', JString ''https://franstrack.com/logo.png''),
        (''address'',
           JObject [(''@type'', JString ''PostalAddress''),
                    (''addressLocality'', JString ''Liverpool''),
                    (''addressCountry'', JString ''UK'')]),
        (''contactPoint'',
           JObject [(''@type'', JString ''ContactPoint''),
                    (''telephone'', JString ''+44-151-000-0000''),
                    (''contactType'', JString ''customer service'')])]"

text \<open>
  Lines 106 to 109: nothing where there is no browser, and the script element with the
  serialized object otherwise. The result is the element's content.
\<close>

definition JsonLD :: "runtime \<Rightarrow> string option" where
  "JsonLD r = (if \<not> isBrowser r then None else Some (stringify json))"

section \<open>The page (lines 619 to 637)\<close>

text \<open>
  The page composes the components. Each keeps its own state; together they are the
  page's transient state. Of the rendered page the record keeps what depends on the
  runtime or on that state.
\<close>

record transient =
  nav_scrolled :: bool
  banner_visible :: bool
  billingCycle :: billing

record page =
  metadata :: "string option"
  header_class :: string
  prices :: "int list"
  banner :: banner_state

text \<open>What the function returns: the elements of the components, one tree.\<close>

definition FranstrackSite_tree :: "runtime \<Rightarrow> transient \<Rightarrow> page" where
  "FranstrackSite_tree r t =
     \<lparr>metadata = JsonLD r,
      header_class = Nav_header_class (nav_scrolled t),
      prices = Pricing_prices (billingCycle t),
      banner = CookieBanner_render (banner_visible t)\<rparr>"

text \<open>
  The page that is in the document once it is mounted. The components share one React
  tree and the file has no error boundary, so an exception that escapes a mount effect
  makes React remove the whole tree: nothing of the page is left, the metadata element
  included. The one mount effect that can raise is the consent read of line 52 (the
  effect of lines 116 to 121 only registers a listener, and rendering raises nowhere).
  An exception in the click handler of line 72 removes nothing.
\<close>

definition FranstrackSite :: "runtime \<Rightarrow> transient \<Rightarrow> page option" where
  "FranstrackSite r t =
     (case CookieBanner_effect r CookieBanner_initial of
        Inl e \<Rightarrow> None
      | Inr visible \<Rightarrow> Some (FranstrackSite_tree r t))"

text \<open>The metadata document that is in the mounted page, if any.\<close>

definition emitted_metadata :: "page option \<Rightarrow> string option" where
  "emitted_metadata mounted = (case mounted of None \<Rightarrow> None | Some p \<Rightarrow> metadata p)"

text \<open>
  The component is subscribed when the listener it registered is in the window's list.
\<close>

definition subscribed :: "nav \<times> runtime \<Rightarrow> bool" where
  "subscribed s =
     (case subscription (fst s) of
        None \<Rightarrow> False
      | Some h \<Rightarrow> h \<in> set (scroll_listeners (snd s)))"

section \<open>Concrete runtimes\<close>

text \<open>A browser with working, empty storage, at the top of the page.\<close>

definition fresh_browser :: runtime where
  "fresh_browser =
     \<lparr>isBrowser = True, read_fault = None, write_fault = None,
      localStorage = Map.empty, scrollY = 0, scroll_listeners = []\<rparr>"

section \<open>Cookie consent: the theorems\<close>

lemma CookieBanner_mount_browser:
  "isBrowser r \<Longrightarrow> read_fault r = None \<Longrightarrow>
     CookieBanner_mount r = js_not (localStorage r ft_cookie_ok)"
  by (simp add: CookieBanner_mount_def CookieBanner_effect_def getItem_def settle_def)

lemma CookieBanner_mount_read_raises:
  "isBrowser r \<Longrightarrow> read_fault r = Some e \<Longrightarrow> CookieBanner_mount r = False"
  by (simp add: CookieBanner_mount_def CookieBanner_effect_def getItem_def settle_def
      CookieBanner_initial_def)

lemma CookieBanner_mount_no_browser:
  "\<not> isBrowser r \<Longrightarrow> CookieBanner_mount r = False"
  by (simp add: CookieBanner_mount_def CookieBanner_effect_def settle_def
      CookieBanner_initial_def)

text \<open>
  C1, as the code has it. In a browser whose storage can be read, the banner after mount
  is decided by the truthiness of the stored string, not by its presence: it is Visible
  when the entry is absent or holds the empty string, and Hidden when the entry holds
  any non-empty string (such as the "1" that Accept writes).
\<close>

theorem CookieBanner_mount_truthiness:
  assumes "isBrowser r" and "read_fault r = None"
  shows "CookieBanner_render (CookieBanner_mount r) =
           (case localStorage r ft_cookie_ok of
              None \<Rightarrow> Visible
            | Some v \<Rightarrow> if v = [] then Visible else Hidden)"
  using assms
  by (simp add: CookieBanner_mount_browser CookieBanner_render_def js_not_def
      split: option.split)

theorem CookieBanner_mount_truthiness_witness:
  "isBrowser fresh_browser \<and> read_fault fresh_browser = None \<and>
   CookieBanner_render (CookieBanner_mount fresh_browser) = Visible \<and>
   CookieBanner_render
     (CookieBanner_mount (fresh_browser\<lparr>localStorage := [ft_cookie_ok \<mapsto> ''1'']\<rparr>)) = Hidden"
  using CookieBanner_mount_truthiness [of fresh_browser]
    CookieBanner_mount_truthiness [of "fresh_browser\<lparr>localStorage := [ft_cookie_ok \<mapsto> ''1'']\<rparr>"]
  by (simp add: fresh_browser_def)

text \<open>
  C1 as stated fails: an entry that is present with the empty string as its value is
  read as falsy, and the banner is Visible after mount although the entry exists.
\<close>

theorem CookieBanner_present_entry_counterexample:
  "localStorage (fresh_browser\<lparr>localStorage := [ft_cookie_ok \<mapsto> '''']\<rparr>) ft_cookie_ok \<noteq> None \<and>
   CookieBanner_render
     (CookieBanner_mount (fresh_browser\<lparr>localStorage := [ft_cookie_ok \<mapsto> '''']\<rparr>)) = Visible"
  by (simp add: fresh_browser_def CookieBanner_mount_browser CookieBanner_render_def js_not_def)

text \<open>
  C2, as the code has it. Nothing catches an exception of the consent read: it leaves
  the mount effect before the setter is reached, so the banner keeps its initial state
  and is Hidden. Where there is no browser the effect returns before it reads, and the
  banner is Hidden as well. The banner is Visible after mount exactly when the runtime
  is a browser, the read returns, and what it returns is null or the empty string.
\<close>

theorem CookieBanner_mount_read_failure:
  "(isBrowser r \<and> read_fault r = Some e \<longrightarrow>
      CookieBanner_effect r CookieBanner_initial = Inl e \<and>
      CookieBanner_render (CookieBanner_mount r) = Hidden) \<and>
   (\<not> isBrowser r \<longrightarrow> CookieBanner_render (CookieBanner_mount r) = Hidden) \<and>
   (CookieBanner_render (CookieBanner_mount r) = Visible \<longleftrightarrow>
      isBrowser r \<and> read_fault r = None \<and> js_not (localStorage r ft_cookie_ok))"
proof (intro conjI impI)
  assume h: "isBrowser r \<and> read_fault r = Some e"
  then show "CookieBanner_effect r CookieBanner_initial = Inl e"
    by (simp add: CookieBanner_effect_def getItem_def)
  from h show "CookieBanner_render (CookieBanner_mount r) = Hidden"
    by (simp add: CookieBanner_mount_read_raises CookieBanner_render_def)
next
  assume "\<not> isBrowser r"
  then show "CookieBanner_render (CookieBanner_mount r) = Hidden"
    by (simp add: CookieBanner_mount_no_browser CookieBanner_render_def)
next
  show "CookieBanner_render (CookieBanner_mount r) = Visible \<longleftrightarrow>
      isBrowser r \<and> read_fault r = None \<and> js_not (localStorage r ft_cookie_ok)"
  proof (cases "isBrowser r")
    case False
    then show ?thesis
      by (simp add: CookieBanner_mount_no_browser CookieBanner_render_def)
  next
    case True
    show ?thesis
    proof (cases "read_fault r")
      case None
      with True show ?thesis
        by (simp add: CookieBanner_mount_browser CookieBanner_render_def)
    next
      case (Some e')
      with True show ?thesis
        by (simp add: CookieBanner_mount_read_raises CookieBanner_render_def)
    qed
  qed
qed

theorem CookieBanner_mount_read_failure_witness:
  "read_fault (fresh_browser\<lparr>read_fault := Some SecurityError\<rparr>) = Some SecurityError \<and>
   CookieBanner_effect (fresh_browser\<lparr>read_fault := Some SecurityError\<rparr>)
     CookieBanner_initial = Inl SecurityError \<and>
   CookieBanner_render
     (CookieBanner_mount (fresh_browser\<lparr>read_fault := Some SecurityError\<rparr>)) = Hidden \<and>
   CookieBanner_render
     (CookieBanner_mount (fresh_browser\<lparr>isBrowser := False\<rparr>)) = Hidden \<and>
   CookieBanner_render (CookieBanner_mount fresh_browser) = Visible"
  using CookieBanner_mount_read_failure
      [of "fresh_browser\<lparr>read_fault := Some SecurityError\<rparr>" SecurityError]
    CookieBanner_mount_read_failure [of "fresh_browser\<lparr>isBrowser := False\<rparr>" SecurityError]
    CookieBanner_mount_read_failure [of fresh_browser SecurityError]
  by (simp add: fresh_browser_def js_not_def)

text \<open>
  C2 as stated fails: with a storage whose read raises SecurityError the banner after
  mount is Hidden, not Visible, and the read produces no value at all.
\<close>

theorem CookieBanner_read_raises_counterexample:
  "getItem (fresh_browser\<lparr>read_fault := Some SecurityError\<rparr>) ft_cookie_ok
     = Inl SecurityError \<and>
   CookieBanner_render
     (CookieBanner_mount (fresh_browser\<lparr>read_fault := Some SecurityError\<rparr>)) \<noteq> Visible"
  by (simp add: fresh_browser_def getItem_def CookieBanner_mount_read_raises
      CookieBanner_render_def)

lemma onAccept_written:
  "isBrowser r \<Longrightarrow> write_fault r = None \<Longrightarrow>
     CookieBanner_onAccept r v =
       Inr (r\<lparr>localStorage := (localStorage r)(ft_cookie_ok \<mapsto> ''1'')\<rparr>, False)"
  by (simp add: CookieBanner_onAccept_def setItem_def)

lemma onAccept_raises:
  "isBrowser r \<Longrightarrow> write_fault r = Some e \<Longrightarrow> CookieBanner_onAccept r v = Inl e"
  by (simp add: CookieBanner_onAccept_def setItem_def)

lemma onAccept_no_browser:
  "\<not> isBrowser r \<Longrightarrow> CookieBanner_onAccept r v = Inr (r, False)"
  by (simp add: CookieBanner_onAccept_def)

lemma click_Accept_visible:
  "click_Accept (r, True) = settle (r, True) (CookieBanner_onAccept r True)"
  by (simp add: click_Accept_def CookieBanner_render_def)

text \<open>
  C3, as the code has it. From Visible, Accept yields Hidden whenever the write does not
  raise: where there is no browser nothing is written, and in a browser the entry then
  holds "1". A write that raises is not caught: the exception leaves the handler before
  the setter is reached, the banner stays Visible and the storage is as it was.
\<close>

theorem CookieBanner_Accept_outcome:
  "(\<not> isBrowser r \<longrightarrow> click_Accept (r, True) = (r, False)) \<and>
   (isBrowser r \<and> write_fault r = None \<longrightarrow>
      click_Accept (r, True) =
        (r\<lparr>localStorage := (localStorage r)(ft_cookie_ok \<mapsto> ''1'')\<rparr>, False)) \<and>
   (isBrowser r \<and> write_fault r = Some e \<longrightarrow>
      CookieBanner_onAccept r True = Inl e \<and> click_Accept (r, True) = (r, True))"
  by (simp add: click_Accept_visible onAccept_written onAccept_raises onAccept_no_browser
      settle_def)

theorem CookieBanner_Accept_outcome_witness:
  "isBrowser fresh_browser \<and> write_fault fresh_browser = None \<and>
   CookieBanner_render (snd (click_Accept (fresh_browser, True))) = Hidden \<and>
   localStorage (fst (click_Accept (fresh_browser, True))) ft_cookie_ok = Some ''1'' \<and>
   CookieBanner_render
     (snd (click_Accept (fresh_browser\<lparr>isBrowser := False\<rparr>, True))) = Hidden \<and>
   CookieBanner_render
     (snd (click_Accept (fresh_browser\<lparr>write_fault := Some SecurityError\<rparr>, True))) = Visible"
  using CookieBanner_Accept_outcome [of fresh_browser SecurityError]
    CookieBanner_Accept_outcome [of "fresh_browser\<lparr>isBrowser := False\<rparr>" SecurityError]
    CookieBanner_Accept_outcome
      [of "fresh_browser\<lparr>write_fault := Some SecurityError\<rparr>" SecurityError]
  by (simp add: fresh_browser_def CookieBanner_render_def)

text \<open>
  C3 as stated fails: with a storage whose write raises QuotaExceededError, Accept from
  Visible ends with the banner still Visible.
\<close>

theorem CookieBanner_write_raises_counterexample:
  "CookieBanner_onAccept (fresh_browser\<lparr>write_fault := Some QuotaExceededError\<rparr>) True
     = Inl QuotaExceededError \<and>
   CookieBanner_render
     (snd (click_Accept (fresh_browser\<lparr>write_fault := Some QuotaExceededError\<rparr>, True)))
     \<noteq> Hidden"
  by (simp add: fresh_browser_def click_Accept_visible onAccept_raises settle_def
      CookieBanner_render_def)

text \<open>
  C4. In a browser whose storage neither refuses the read nor the write and holds no
  consent entry, mount shows the banner, Accept hides it and stores "1" under the key,
  and the mount after a reload leaves the banner hidden.
\<close>

theorem consent_round_trip:
  assumes "isBrowser r" and "read_fault r = None" and "write_fault r = None"
    and "localStorage r ft_cookie_ok = None"
  shows "mount_accept_reload r = (Visible, Hidden, Some ''1'', Hidden)"
proof -
  have v1: "CookieBanner_mount r = True"
    using assms by (simp add: CookieBanner_mount_browser js_not_def)
  let ?r2 = "r\<lparr>localStorage := (localStorage r)(ft_cookie_ok \<mapsto> ''1'')\<rparr>"
  have click: "click_Accept (r, True) = (?r2, False)"
    using assms by (simp add: click_Accept_visible onAccept_written settle_def)
  have v3: "CookieBanner_mount ?r2 = False"
    using assms by (simp add: CookieBanner_mount_browser js_not_def)
  show ?thesis
    by (simp add: mount_accept_reload_def v1 click v3 CookieBanner_render_def)
qed

theorem consent_round_trip_witness:
  "isBrowser fresh_browser \<and> read_fault fresh_browser = None \<and>
   write_fault fresh_browser = None \<and> localStorage fresh_browser ft_cookie_ok = None \<and>
   mount_accept_reload fresh_browser = (Visible, Hidden, Some ''1'', Hidden)"
  using consent_round_trip [of fresh_browser]
  by (simp add: fresh_browser_def)

section \<open>Navigation bar: the theorems\<close>

lemma Nav_mount_subscribed: "isBrowser r \<Longrightarrow> subscribed (Nav_mount h r)"
  by (simp add: subscribed_def Nav_mount_def Nav_effect_def addEventListener_def)

lemma scroll_to_subscription:
  "subscription (fst (scroll_to y s)) = subscription (fst s)"
  by (cases s) (simp add: scroll_to_def Let_def split: option.split)

lemma scroll_to_listeners:
  "scroll_listeners (snd (scroll_to y s)) = scroll_listeners (snd s)"
  by (cases s) (simp add: scroll_to_def Let_def split: option.split)

lemma scroll_to_subscribed: "subscribed s \<Longrightarrow> subscribed (scroll_to y s)"
  by (simp add: subscribed_def scroll_to_subscription scroll_to_listeners
      cong: option.case_cong)

lemma fold_scroll_to_subscription:
  "subscription (fst (fold scroll_to ys s)) = subscription (fst s)"
  by (induction ys arbitrary: s) (simp_all add: scroll_to_subscription)

lemma fold_scroll_to_listeners:
  "scroll_listeners (snd (fold scroll_to ys s)) = scroll_listeners (snd s)"
  by (induction ys arbitrary: s) (simp_all add: scroll_to_listeners)

lemma fold_scroll_to_subscribed: "subscribed s \<Longrightarrow> subscribed (fold scroll_to ys s)"
  by (simp add: subscribed_def fold_scroll_to_subscription fold_scroll_to_listeners
      cong: option.case_cong)

lemma scroll_to_signal: "subscribed s \<Longrightarrow> scrolled (fst (scroll_to y s)) = (20 < y)"
  by (cases s)
    (auto simp: subscribed_def scroll_to_def Let_def handleScroll_def split: option.splits)

lemma Nav_mount_subscription:
  "subscription (fst (Nav_mount h r)) = (if isBrowser r then Some h else None)"
  by (simp add: Nav_mount_def Nav_effect_def)

lemma Nav_mount_listeners:
  "h \<notin> set (scroll_listeners r) \<Longrightarrow>
     scroll_listeners (snd (Nav_mount h r)) =
       (if isBrowser r then scroll_listeners r @ [h] else scroll_listeners r)"
  by (simp add: Nav_mount_def Nav_effect_def addEventListener_def)

text \<open>
  C5. Once the navigation bar is mounted in a browser, after any history of scroll
  events the signal is decided by the position of the last event alone: it is true
  exactly when that position is above 20.
\<close>

theorem Nav_scrolled_threshold:
  assumes "isBrowser r"
  shows "scrolled (fst (fold scroll_to (ys @ [y]) (Nav_mount h r))) = (20 < y)"
proof -
  have "subscribed (fold scroll_to ys (Nav_mount h r))"
    using assms by (simp add: Nav_mount_subscribed fold_scroll_to_subscribed)
  then show ?thesis
    by (simp add: scroll_to_signal)
qed

theorem Nav_scrolled_threshold_witness:
  "isBrowser fresh_browser \<and>
   scrolled (fst (fold scroll_to [20] (Nav_mount 0 fresh_browser))) = False \<and>
   scrolled (fst (fold scroll_to [21] (Nav_mount 0 fresh_browser))) = True \<and>
   scrolled (fst (fold scroll_to [21, 0] (Nav_mount 0 fresh_browser))) = False"
  using Nav_scrolled_threshold [of fresh_browser "[]" 20 0]
    Nav_scrolled_threshold [of fresh_browser "[]" 21 0]
    Nav_scrolled_threshold [of fresh_browser "[21]" 0 0]
  by (simp add: fresh_browser_def)

text \<open>
  C9. The closure that a mount registers is a new object, so it is not among the
  window's listeners before. Then, whatever scroll events arrive in between, the
  window's listeners after the unmount are those before the mount; and a mount followed
  at once by the unmount leaves the whole runtime as it was.
\<close>

theorem Nav_unmount_restores_listeners:
  assumes "h \<notin> set (scroll_listeners r)"
  shows "scroll_listeners (Nav_unmount (fold scroll_to ys (Nav_mount h r))) = scroll_listeners r
         \<and> Nav_unmount (Nav_mount h r) = r"
proof
  obtain n r' where s: "fold scroll_to ys (Nav_mount h r) = (n, r')"
    by (cases "fold scroll_to ys (Nav_mount h r)")
  have sub: "subscription n = (if isBrowser r then Some h else None)"
    using fold_scroll_to_subscription [of ys "Nav_mount h r"] s
    by (simp add: Nav_mount_subscription)
  have lis: "scroll_listeners r' =
      (if isBrowser r then scroll_listeners r @ [h] else scroll_listeners r)"
    using fold_scroll_to_listeners [of ys "Nav_mount h r"] s assms
    by (simp add: Nav_mount_listeners)
  have "scroll_listeners (Nav_unmount (n, r')) = scroll_listeners r"
    using assms
    by (simp add: Nav_unmount_def sub lis removeEventListener_def remove1_append)
  then show "scroll_listeners (Nav_unmount (fold scroll_to ys (Nav_mount h r))) =
      scroll_listeners r"
    by (simp add: s)
  show "Nav_unmount (Nav_mount h r) = r"
    using assms
    by (simp add: Nav_unmount_def Nav_mount_def Nav_effect_def
        addEventListener_def removeEventListener_def remove1_append)
qed

theorem Nav_unmount_restores_listeners_witness:
  "3 \<notin> set (scroll_listeners (fresh_browser\<lparr>scroll_listeners := [1, 2]\<rparr>)) \<and>
   scroll_listeners (snd (Nav_mount 3 (fresh_browser\<lparr>scroll_listeners := [1, 2]\<rparr>)))
     = [1, 2, 3] \<and>
   scroll_listeners
     (Nav_unmount (fold scroll_to [30, 5]
        (Nav_mount 3 (fresh_browser\<lparr>scroll_listeners := [1, 2]\<rparr>)))) = [1, 2]"
  using Nav_unmount_restores_listeners
    [of 3 "fresh_browser\<lparr>scroll_listeners := [1, 2]\<rparr>" "[30, 5]"]
  by (simp add: fresh_browser_def Nav_mount_def Nav_effect_def addEventListener_def)

text \<open>
  C10. Mounting sets the signal to false and only registers the listener: whatever the
  window's scroll offset is at that moment, the signal after the mount is false and the
  header has the classes of the page at its top.
\<close>

theorem Nav_mount_not_scrolled:
  "scrolled (fst (Nav_mount h r)) = False \<and>
   scrollY (snd (Nav_mount h r)) = scrollY r \<and>
   Nav_header_class (scrolled (fst (Nav_mount h r))) = ''bg-transparent'' \<and>
   scrolled (fst (Nav_mount h (fresh_browser\<lparr>scrollY := 500\<rparr>))) = False"
  by (simp add: Nav_mount_def Nav_effect_def Nav_initial_def Nav_header_class_def
      addEventListener_def split: prod.split)

section \<open>Pricing: the theorems\<close>

text \<open>
  C6. The plans are Essential 12/10, Professional 18/15 and Enterprise 25/20, in that
  order; every plan's annual price is at most its monthly price; and with the annual
  billing cycle the displayed prices are 10, 15, 20.
\<close>

theorem plans_prices:
  "map (\<lambda>p. (name p, monthlyPrice p, annualPrice p)) plans =
     [(''Essential'', 12, 10), (''Professional'', 18, 15), (''Enterprise'', 25, 20)] \<and>
   list_all (\<lambda>p. monthlyPrice p \<ge> annualPrice p) plans \<and>
   Pricing_prices Annual = [10, 15, 20]"
  by (simp add: plans_def Pricing_prices_def displayed_price_def)

text \<open>
  C7. The toggle starts at Monthly. Selecting the cycle that is selected already leaves
  the state as it is, and a second selection of the same cycle changes neither the state
  nor the displayed prices.
\<close>

theorem billing_selection_idempotent:
  "Pricing_initial = Monthly \<and>
   selectMonthly Monthly = Monthly \<and> selectAnnual Annual = Annual \<and>
   selectAnnual (selectAnnual b) = selectAnnual b \<and>
   selectMonthly (selectMonthly b) = selectMonthly b \<and>
   Pricing_prices (selectAnnual (selectAnnual b)) = Pricing_prices (selectAnnual b) \<and>
   Pricing_prices (selectMonthly (selectMonthly b)) = Pricing_prices (selectMonthly b)"
  by (simp add: Pricing_initial_def selectMonthly_def selectAnnual_def setBillingCycle_def)

section \<open>Structured metadata: the theorems\<close>

lemma stringify_json:
  \<open>stringify json = ''{"@context":"https://schema.org","@type":"Organization","name":"Franstrack","description":"Professional GPS tracking and fleet management solutions with real-time vehicle monitoring and analytics.","url":"https://franstrack.com","logo":"https://franstrack.com/logo.png","address":{"@type":"PostalAddress","addressLocality":"Liverpool","addressCountry":"UK"},"contactPoint":{"@type":"ContactPoint","telephone":"+44-151-000-0000","contactType":"customer service"}}''\<close>
  by (simp add: json_def quote_def quote_char_def)

lemma FranstrackSite_dropped:
  "isBrowser r \<Longrightarrow> read_fault r = Some e \<Longrightarrow> FranstrackSite r t = None"
  by (simp add: FranstrackSite_def CookieBanner_effect_def getItem_def)

lemma FranstrackSite_mounted:
  "\<not> isBrowser r \<or> read_fault r = None \<Longrightarrow>
     FranstrackSite r t = Some (FranstrackSite_tree r t)"
  by (auto simp: FranstrackSite_def CookieBanner_effect_def getItem_def)

lemma FranstrackSite_metadata:
  \<open>emitted_metadata (FranstrackSite r t) =
     (if isBrowser r \<and> read_fault r = None
      then Some ''{"@context":"https://schema.org","@type":"Organization","name":"Franstrack","description":"Professional GPS tracking and fleet management solutions with real-time vehicle monitoring and analytics.","url":"https://franstrack.com","logo":"https://franstrack.com/logo.png","address":{"@type":"PostalAddress","addressLocality":"Liverpool","addressCountry":"UK"},"contactPoint":{"@type":"ContactPoint","telephone":"+44-151-000-0000","contactType":"customer service"}}''
      else None)\<close>
proof (cases "isBrowser r")
  case False
  then show ?thesis
    by (simp add: FranstrackSite_mounted emitted_metadata_def FranstrackSite_tree_def
        JsonLD_def)
next
  case True
  show ?thesis
  proof (cases "read_fault r")
    case None
    with True show ?thesis
      by (simp add: FranstrackSite_mounted emitted_metadata_def FranstrackSite_tree_def
          JsonLD_def stringify_json)
  next
    case (Some e)
    with True show ?thesis
      by (simp add: FranstrackSite_dropped emitted_metadata_def)
  qed
qed

text \<open>
  C8. Take two mounts of the page whose consent read returns, in runtimes that agree on
  the module constant \<^verbatim>\<open>isBrowser\<close> (it is the same for every mount of one page
  load) and may differ in scroll offset and in the stored entries, and take any
  transient states. The metadata documents in the two mounted pages are the same: in a
  browser the serialization of the static object, one fixed string, which the emitter
  produces without any failure case of its own; nothing where there is no browser.
  (Where the consent read raises, the page is removed and holds no document at all.)
\<close>

theorem JsonLD_fixed:
  assumes "isBrowser r1 = isBrowser r2"
    and "read_fault r1 = None" and "read_fault r2 = None"
  shows \<open>emitted_metadata (FranstrackSite r1 t1) = emitted_metadata (FranstrackSite r2 t2) \<and>
         emitted_metadata (FranstrackSite r1 t1) =
           (if isBrowser r1
            then Some ''{"@context":"https://schema.org","@type":"Organization","name":"Franstrack","description":"Professional GPS tracking and fleet management solutions with real-time vehicle monitoring and analytics.","url":"https://franstrack.com","logo":"https://franstrack.com/logo.png","address":{"@type":"PostalAddress","addressLocality":"Liverpool","addressCountry":"UK"},"contactPoint":{"@type":"ContactPoint","telephone":"+44-151-000-0000","contactType":"customer service"}}''
            else None) \<and>
         JsonLD r1 = emitted_metadata (FranstrackSite r1 t1)\<close>
  using assms
  by (simp add: FranstrackSite_metadata JsonLD_def stringify_json)

theorem JsonLD_fixed_witness:
  \<open>isBrowser fresh_browser =
     isBrowser (fresh_browser\<lparr>localStorage := [ft_cookie_ok \<mapsto> ''1''], scrollY := 300\<rparr>) \<and>
   read_fault fresh_browser = None \<and>
   read_fault (fresh_browser\<lparr>localStorage := [ft_cookie_ok \<mapsto> ''1''], scrollY := 300\<rparr>)
     = None \<and>
   emitted_metadata (FranstrackSite fresh_browser
       \<lparr>nav_scrolled = False, banner_visible = True, billingCycle = Monthly\<rparr>) =
     emitted_metadata (FranstrackSite
       (fresh_browser\<lparr>localStorage := [ft_cookie_ok \<mapsto> ''1''], scrollY := 300\<rparr>)
       \<lparr>nav_scrolled = True, banner_visible = False, billingCycle = Annual\<rparr>) \<and>
   emitted_metadata (FranstrackSite fresh_browser
       \<lparr>nav_scrolled = False, banner_visible = True, billingCycle = Monthly\<rparr>) =
     Some ''{"@context":"https://schema.org","@type":"Organization","name":"Franstrack","description":"Professional GPS tracking and fleet management solutions with real-time vehicle monitoring and analytics.","url":"https://franstrack.com","logo":"https://franstrack.com/logo.png","address":{"@type":"PostalAddress","addressLocality":"Liverpool","addressCountry":"UK"},"contactPoint":{"@type":"ContactPoint","telephone":"+44-151-000-0000","contactType":"customer service"}}''\<close>
proof -
  let ?r2 = "fresh_browser\<lparr>localStorage := [ft_cookie_ok \<mapsto> ''1''], scrollY := 300\<rparr>"
  have b: "isBrowser fresh_browser"
    by (simp add: fresh_browser_def)
  have h: "isBrowser fresh_browser = isBrowser ?r2"
    by (simp add: fresh_browser_def)
  have f1: "read_fault fresh_browser = None"
    by (simp add: fresh_browser_def)
  have f2: "read_fault ?r2 = None"
    by (simp add: fresh_browser_def)
  show ?thesis
    using h b f1 f2
      JsonLD_fixed [OF h f1 f2,
        of "\<lparr>nav_scrolled = False, banner_visible = True, billingCycle = Monthly\<rparr>"
           "\<lparr>nav_scrolled = True, banner_visible = False, billingCycle = Annual\<rparr>"]
    by auto
qed

end
